theory Spec2Isabelle
  imports Main "HOL-Library.Word"
begin

section \<open>The chat relay server (chat-app/server.js) as a state machine\<close>

text \<open>
  The server keeps three process-wide containers (\<open>users\<close>, \<open>userSessions\<close>,
  \<open>messageHistory\<close>) and registers one handler per inbound socket event. Each handler
  is modelled as a function from the state before the event to the state after it,
  the list of events it emits (in program order, each with its audience) and the way
  it completes: normally, or by an uncaught \<open>TypeError\<close>. Mutations made before a
  throw stay in the state, as they do in the program.
\<close>

subsection \<open>JavaScript values arriving in event payloads\<close>

text \<open>
  A JavaScript string is a sequence of 16-bit code units; \<open>length\<close> counts them, as
  \<open>.length\<close> does.
\<close>

type_synonym code_unit = "16 word"

type_synonym js_string = "code_unit list"

text \<open>
  A literal of the program text, written in ASCII: each character stands for the code
  unit of the same number.
\<close>

definition js :: "string \<Rightarrow> js_string" where
  "js s = map (\<lambda>c. of_nat (of_char c)) s"

text \<open>
  Payloads are whatever the client sent. Numbers are kept as integers: the handlers
  only test them for truthiness and never compute with them.
\<close>

datatype jsval =
    JUndefined
  | JNull
  | JBool bool
  | JNum int
  | JStr js_string
  | JArr "jsval list"
  | JObj "(js_string \<times> jsval) list"

text \<open>\<open>!v\<close> is \<open>\<not> truthy v\<close>.\<close>

fun truthy :: "jsval \<Rightarrow> bool" where
  "truthy JUndefined = False"
| "truthy JNull = False"
| "truthy (JBool b) = b"
| "truthy (JNum n) = (n \<noteq> 0)"
| "truthy (JStr s) = (s \<noteq> [])"
| "truthy (JArr xs) = True"
| "truthy (JObj kvs) = True"

text \<open>
  \<open>const { a, b } = data\<close> throws a \<open>TypeError\<close> when \<open>data\<close> is \<open>undefined\<close> or
  \<open>null\<close>; on every other value it reads the named properties, which are
  \<open>undefined\<close> unless \<open>data\<close> is an object that has them.
\<close>

fun destructurable :: "jsval \<Rightarrow> bool" where
  "destructurable JUndefined = False"
| "destructurable JNull = False"
| "destructurable v = True"

fun field :: "jsval \<Rightarrow> js_string \<Rightarrow> jsval" where
  "field (JObj kvs) k = (case map_of kvs k of None \<Rightarrow> JUndefined | Some v \<Rightarrow> v)"
| "field v k = JUndefined"

text \<open>
  \<open>String.prototype.trim\<close> strips white space and line terminators from both ends.
  In ECMAScript these are the code points U+0009 to U+000D, U+0020, U+00A0, U+1680,
  U+2000 to U+200A, U+2028, U+2029, U+202F, U+205F, U+3000 and U+FEFF: the characters
  TAB, VT, FF and ZWNBSP, the Unicode space separators, and LF, CR, LS, PS. Each is a
  single code unit.
\<close>

definition js_whitespace :: "code_unit \<Rightarrow> bool" where
  "js_whitespace c \<longleftrightarrow>
     c \<in> set [0x0009, 0x000A, 0x000B, 0x000C, 0x000D, 0x0020, 0x00A0, 0x1680,
              0x2000, 0x2001, 0x2002, 0x2003, 0x2004, 0x2005, 0x2006, 0x2007,
              0x2008, 0x2009, 0x200A, 0x2028, 0x2029, 0x202F, 0x205F, 0x3000, 0xFEFF]"

definition trim :: "js_string \<Rightarrow> js_string" where
  "trim s = rev (dropWhile js_whitespace (rev (dropWhile js_whitespace s)))"

text \<open>
  \<open>Array.prototype.slice(start)\<close> with one argument: a negative start counts from
  the end and is clamped at the first element, a positive one is clamped at the length.
\<close>

definition slice :: "int \<Rightarrow> 'a list \<Rightarrow> 'a list" where
  "slice start xs =
     (let len = int (length xs);
          k = (if start < 0 then max (len + start) 0 else min start len)
      in drop (nat k) xs)"

subsection \<open>\<open>Map\<close>: insertion-ordered, keys unique\<close>

text \<open>
  A JavaScript \<open>Map\<close> iterates in insertion order, and \<open>set\<close> on a key that is
  present replaces the value where it stands. The order is visible in the
  \<open>online_users\<close> event, so the model is an association list.
\<close>

fun Map_get :: "('k \<times> 'v) list \<Rightarrow> 'k \<Rightarrow> 'v option" where
  "Map_get [] k = None"
| "Map_get ((k', v) # m) k = (if k' = k then Some v else Map_get m k)"

fun Map_set :: "('k \<times> 'v) list \<Rightarrow> 'k \<Rightarrow> 'v \<Rightarrow> ('k \<times> 'v) list" where
  "Map_set [] k v = [(k, v)]"
| "Map_set ((k', v') # m) k v = (if k' = k then (k, v) # m else (k', v') # Map_set m k v)"

fun Map_delete :: "('k \<times> 'v) list \<Rightarrow> 'k \<Rightarrow> ('k \<times> 'v) list" where
  "Map_delete [] k = []"
| "Map_delete ((k', v) # m) k = (if k' = k then Map_delete m k else (k', v) # Map_delete m k)"

definition Map_values :: "('k \<times> 'v) list \<Rightarrow> 'v list" where
  "Map_values m = map snd m"

definition Map_size :: "('k \<times> 'v) list \<Rightarrow> nat" where
  "Map_size m = length m"

subsection \<open>Records of the server\<close>

text \<open>The \<open>user\<close> object built by the \<open>user_login\<close> handler.\<close>

record user =
  user_id :: js_string
  username :: js_string
  publicKey :: jsval
  socketId :: js_string
  connectedAt :: js_string

text \<open>
  The \<open>messageObj\<close> built by the \<open>send_message\<close> handler; \<open>sender_id\<close> and
  \<open>sender_username\<close> are the two fields of its nested \<open>sender\<close> object.
\<close>

record message =
  msg_id :: js_string
  sender_id :: js_string
  sender_username :: jsval
  encryptedMessage :: jsval
  timestamp :: js_string
  msg_type :: js_string

text \<open>
  What a handler reads from the clock and the random generator: \<open>Date.now()\<close> in
  decimal, \<open>Math.random().toString(36).substr(2, 9)\<close>, \<open>new Date().toISOString()\<close>
  and \<open>new Date()\<close>.
\<close>

record env =
  now_ms :: js_string
  rand36 :: js_string
  iso :: js_string
  date :: js_string

text \<open>
  \<open>sockets\<close> is the set of connections socket.io holds open; the other three fields
  are the containers declared at the top of server.js.
\<close>

record state =
  sockets :: "js_string set"
  users :: "(js_string \<times> user) list"
  userSessions :: "(js_string \<times> js_string) list"
  messageHistory :: "message list"

definition initial :: state where
  "initial = \<lparr>sockets = {}, users = [], userSessions = [], messageHistory = []\<rparr>"

subsection \<open>Outbound events and their audiences\<close>

datatype out_event =
    Ev_error js_string
  | Ev_user_connected js_string jsval js_string nat
  | Ev_online_users "(js_string \<times> js_string \<times> jsval) list"
  | Ev_message_history "message list"
  | Ev_receive_message message
  | Ev_message_sent js_string js_string
  | Ev_user_typing js_string js_string
  | Ev_user_stopped_typing js_string
  | Ev_user_disconnected js_string js_string js_string nat
  | Ev_pong

text \<open>
  \<open>io.emit\<close> reaches every open connection, \<open>socket.emit\<close> the handler's own
  connection, \<open>io.to(id).emit\<close> the room \<open>id\<close> (each socket is alone in the room
  named by its id; the server never joins a socket to another room), and
  \<open>socket.broadcast.emit\<close> every open connection but the handler's own.
\<close>

datatype audience =
    Io_emit
  | Socket_emit js_string
  | Io_to js_string
  | Socket_broadcast js_string

type_synonym emit = "audience \<times> out_event"

fun recipients :: "js_string set \<Rightarrow> audience \<Rightarrow> js_string set" where
  "recipients conns Io_emit = conns"
| "recipients conns (Socket_emit sid) = {sid}"
| "recipients conns (Io_to room) = conns \<inter> {room}"
| "recipients conns (Socket_broadcast sid) = conns - {sid}"

text \<open>The events one connection receives from a handler run, in order.\<close>

definition inbox :: "js_string set \<Rightarrow> emit list \<Rightarrow> js_string \<Rightarrow> out_event list" where
  "inbox conns emits c = map snd (filter (\<lambda>(a, e). c \<in> recipients conns a) emits)"

datatype completion = Normal | TypeError

subsection \<open>The handlers\<close>

text \<open>\<open>socket.on('user_login', ...)\<close>, server.js lines 60 to 103.\<close>

definition user_login :: "js_string \<Rightarrow> env \<Rightarrow> jsval \<Rightarrow> state \<Rightarrow> state \<times> emit list \<times> completion" where
  "user_login sid e data s =
     (if \<not> destructurable data then (s, [], TypeError)
      else
        let uname = field data (js ''username''); pkey = field data (js ''publicKey'') in
        if \<not> truthy uname \<or> \<not> truthy pkey
        then (s, [(Socket_emit sid, Ev_error (js ''Username and public key required''))], Normal)
        else
          (case uname of
             JStr name \<Rightarrow>
               let userId = sid;
                   u = \<lparr>user_id = userId, username = trim name, publicKey = pkey,
                        socketId = sid, connectedAt = date e\<rparr>;
                   s' = s\<lparr>users := Map_set (users s) userId u,
                          userSessions := Map_set (userSessions s) sid userId\<rparr>
               in (s',
                   [(Io_emit, Ev_user_connected userId uname (iso e) (Map_size (users s'))),
                    (Socket_emit sid,
                       Ev_online_users
                         (map (\<lambda>u. (user_id u, username u, publicKey u)) (Map_values (users s')))),
                    (Socket_emit sid, Ev_message_history (slice (- 30) (messageHistory s')))],
                   Normal)
           | _ \<Rightarrow> (s, [], TypeError)))"

text \<open>
  Lines 121 to 130: the message object. The display name is the client's
  \<open>senderUsername\<close> when that is truthy, the registered name otherwise.
\<close>

definition messageObj :: "js_string \<Rightarrow> user \<Rightarrow> env \<Rightarrow> jsval \<Rightarrow> message" where
  "messageObj senderId sender e data =
     \<lparr>msg_id = js ''msg_'' @ now_ms e @ js ''_'' @ rand36 e,
      sender_id = senderId,
      sender_username =
        (if truthy (field data (js ''senderUsername'')) then field data (js ''senderUsername'')
         else JStr (username sender)),
      encryptedMessage = field data (js ''encryptedMessage''),
      timestamp = iso e,
      msg_type = js ''direct''\<rparr>"

text \<open>Lines 133 to 136: \<open>push\<close>, then \<open>shift\<close> when the length has passed 100.\<close>

definition history_push :: "message list \<Rightarrow> message \<Rightarrow> message list" where
  "history_push h m = (let h' = h @ [m] in if length h' > 100 then tl h' else h')"

text \<open>
  \<open>users.get(recipientId)\<close>: the keys of \<open>users\<close> are strings, so a \<open>recipientId\<close>
  that is not a string finds nothing.
\<close>

fun users_get_val :: "(js_string \<times> user) list \<Rightarrow> jsval \<Rightarrow> user option" where
  "users_get_val m (JStr k) = Map_get m k"
| "users_get_val m v = None"

text \<open>
  \<open>socket.on('send_message', ...)\<close>, lines 106 to 160. The last statement calls
  \<open>encryptedMessage.substring\<close>, which throws unless \<open>encryptedMessage\<close> is a string.
\<close>

definition send_message :: "js_string \<Rightarrow> env \<Rightarrow> jsval \<Rightarrow> state \<Rightarrow> state \<times> emit list \<times> completion" where
  "send_message sid e data s =
     (if \<not> destructurable data then (s, [], TypeError)
      else
        (case Map_get (userSessions s) sid of
           None \<Rightarrow> (s, [(Socket_emit sid, Ev_error (js ''User not authenticated''))], Normal)
         | Some senderId \<Rightarrow>
             if senderId = []
             then (s, [(Socket_emit sid, Ev_error (js ''User not authenticated''))], Normal)
             else
               (case Map_get (users s) senderId of
                  None \<Rightarrow> (s, [(Socket_emit sid, Ev_error (js ''Sender not found''))], Normal)
                | Some sender \<Rightarrow>
                    let m = messageObj senderId sender e data;
                        s' = s\<lparr>messageHistory := history_push (messageHistory s) m\<rparr>;
                        recipientId = field data (js ''recipientId'');
                        emits =
                          (if truthy recipientId then
                             (case users_get_val (users s') recipientId of
                                Some recipient \<Rightarrow>
                                  [(Io_to (socketId recipient), Ev_receive_message m),
                                   (Socket_emit sid, Ev_message_sent (msg_id m) (timestamp m))]
                              | None \<Rightarrow> [(Socket_emit sid, Ev_error (js ''Recipient not found''))])
                           else
                             [(Io_emit, Ev_receive_message m),
                              (Socket_emit sid, Ev_message_sent (msg_id m) (timestamp m))])
                    in (s', emits,
                        (case field data (js ''encryptedMessage'') of
                           JStr txt \<Rightarrow> Normal
                         | _ \<Rightarrow> TypeError)))))"

text \<open>
  Lines 163 to 181: the typing handlers. \<open>sender.username\<close> throws when the session
  names a user that \<open>users\<close> does not hold.
\<close>

definition user_typing :: "js_string \<Rightarrow> state \<Rightarrow> state \<times> emit list \<times> completion" where
  "user_typing sid s =
     (case Map_get (userSessions s) sid of
        None \<Rightarrow> (s, [], Normal)
      | Some senderId \<Rightarrow>
          if senderId = [] then (s, [], Normal)
          else
            (case Map_get (users s) senderId of
               None \<Rightarrow> (s, [], TypeError)
             | Some sender \<Rightarrow>
                 (s, [(Socket_broadcast sid, Ev_user_typing senderId (username sender))], Normal)))"

definition user_stopped_typing :: "js_string \<Rightarrow> state \<Rightarrow> state \<times> emit list \<times> completion" where
  "user_stopped_typing sid s =
     (case Map_get (userSessions s) sid of
        None \<Rightarrow> (s, [], Normal)
      | Some senderId \<Rightarrow>
          if senderId = [] then (s, [], Normal)
          else (s, [(Socket_broadcast sid, Ev_user_stopped_typing senderId)], Normal))"

text \<open>\<open>socket.on('disconnect', ...)\<close>, lines 184 to 202.\<close>

definition disconnect :: "js_string \<Rightarrow> env \<Rightarrow> state \<Rightarrow> state \<times> emit list \<times> completion" where
  "disconnect sid e s =
     (case Map_get (userSessions s) sid of
        None \<Rightarrow> (s, [], Normal)
      | Some userId \<Rightarrow>
          if userId = [] then (s, [], Normal)
          else
            (case Map_get (users s) userId of
               None \<Rightarrow> (s\<lparr>userSessions := Map_delete (userSessions s) sid\<rparr>, [], Normal)
             | Some u \<Rightarrow>
                 let s1 = s\<lparr>users := Map_delete (users s) userId\<rparr>;
                     out = [(Io_emit,
                             Ev_user_disconnected userId (username u) (iso e)
                               (Map_size (users s1)))]
                 in (s1\<lparr>userSessions := Map_delete (userSessions s1) sid\<rparr>, out, Normal)))"

definition ping :: "js_string \<Rightarrow> state \<Rightarrow> state \<times> emit list \<times> completion" where
  "ping sid s = (s, [(Socket_emit sid, Ev_pong)], Normal)"

subsection \<open>Dispatch\<close>

text \<open>
  An inbound event arrives on a connection. \<open>On_connection\<close> opens one (socket.io
  gives it a fresh, non-empty id); the other events run their handler only on an open
  connection, and \<open>On_disconnect\<close> runs its handler after socket.io has dropped the
  connection from the ones it emits to.
\<close>

datatype in_event =
    On_connection
  | On_user_login jsval
  | On_send_message jsval
  | On_user_typing
  | On_user_stopped_typing
  | On_disconnect
  | On_error
  | On_ping

fun handle :: "js_string \<Rightarrow> env \<Rightarrow> in_event \<Rightarrow> state \<Rightarrow> state \<times> emit list \<times> completion" where
  "handle sid e On_connection s = (s, [], Normal)"
| "handle sid e (On_user_login data) s = user_login sid e data s"
| "handle sid e (On_send_message data) s = send_message sid e data s"
| "handle sid e On_user_typing s = user_typing sid s"
| "handle sid e On_user_stopped_typing s = user_stopped_typing sid s"
| "handle sid e On_disconnect s = disconnect sid e s"
| "handle sid e On_error s = (s, [], Normal)"
| "handle sid e On_ping s = ping sid s"

definition step :: "state \<Rightarrow> js_string \<times> env \<times> in_event \<Rightarrow> state \<times> emit list \<times> completion" where
  "step s x =
     (case x of (sid, e, ev) \<Rightarrow>
        if ev = On_connection then
          (if sid = [] \<or> sid \<in> sockets s then (s, [], Normal)
           else (s\<lparr>sockets := insert sid (sockets s)\<rparr>, [], Normal))
        else if sid \<notin> sockets s then (s, [], Normal)
        else if ev = On_disconnect then disconnect sid e (s\<lparr>sockets := sockets s - {sid}\<rparr>)
        else handle sid e ev s)"

definition run :: "state \<Rightarrow> (js_string \<times> env \<times> in_event) list \<Rightarrow> state" where
  "run s xs = foldl (\<lambda>s x. fst (step s x)) s xs"

text \<open>A run of \<open>send_message\<close> events on one connection, each with its clock readings.\<close>

definition sends :: "js_string \<Rightarrow> (env \<times> jsval) list \<Rightarrow> (js_string \<times> env \<times> in_event) list" where
  "sends sid xs = map (\<lambda>(e, d). (sid, e, On_send_message d)) xs"

subsection \<open>The history query as the specification words it\<close>

text \<open>
  \<open>recentHistory(limit)\<close>: the most recent \<open>limit\<close> messages, oldest first. The
  server has no function of that name; the \<open>user_login\<close> handler computes the replay
  with \<open>messageHistory.slice(-30)\<close>.
\<close>

definition recentHistory :: "nat \<Rightarrow> message list \<Rightarrow> message list" where
  "recentHistory limit h = rev (take limit (rev h))"

subsection \<open>What holds in every state the server reaches\<close>

definition server_inv :: "state \<Rightarrow> bool" where
  "server_inv s \<longleftrightarrow>
     [] \<notin> sockets s \<and>
     (\<forall>k. Map_get (userSessions s) k = map_option (\<lambda>u. k) (Map_get (users s) k)) \<and>
     (\<forall>k u. Map_get (users s) k = Some u \<longrightarrow> k \<in> sockets s \<and> socketId u = k \<and> user_id u = k) \<and>
     length (messageHistory s) \<le> 100"

subsection \<open>Concrete clients and sessions\<close>

definition env0 :: env where
  "env0 = \<lparr>now_ms = js ''1700000000000'', rand36 = js ''k3j9x2m1q'',
           iso = js ''2023-11-14T22:13:20.000Z'', date = js ''2023-11-14T22:13:20.000Z''\<rparr>"

text \<open>The payloads the browser client builds in \<open>handleLogin\<close> and \<open>sendMessage\<close>.\<close>

definition client_login :: "js_string \<Rightarrow> js_string \<Rightarrow> jsval" where
  "client_login name key = JObj [(js ''username'', JStr name), (js ''publicKey'', JStr key)]"

definition client_send :: "js_string \<Rightarrow> jsval \<Rightarrow> js_string \<Rightarrow> jsval" where
  "client_send txt recipientId senderUsername =
     JObj [(js ''encryptedMessage'', JStr txt), (js ''recipientId'', recipientId),
           (js ''senderUsername'', JStr senderUsername),
           (js ''timestamp'', JStr (js ''2023-11-14T22:13:20.000Z''))]"

text \<open>Connection \<open>A\<close> has logged in as alice; in the second session \<open>B\<close> is open too.\<close>

definition alice_online :: state where
  "alice_online =
     run initial [(js ''A'', env0, On_connection),
                  (js ''A'', env0, On_user_login (client_login (js ''alice'') (js ''PK-A'')))]"

definition alice_and_guest :: state where
  "alice_and_guest =
     run initial [(js ''A'', env0, On_connection), (js ''B'', env0, On_connection),
                  (js ''A'', env0, On_user_login (client_login (js ''alice'') (js ''PK-A'')))]"

definition alice :: user where
  "alice = \<lparr>user_id = js ''A'', username = js ''alice'', publicKey = JStr (js ''PK-A''),
            socketId = js ''A'', connectedAt = js ''2023-11-14T22:13:20.000Z''\<rparr>"

text \<open>Alice has left again.\<close>

definition alice_gone :: state where
  "alice_gone =
     run initial [(js ''A'', env0, On_connection),
                  (js ''A'', env0, On_user_login (client_login (js ''alice'') (js ''PK-A''))),
                  (js ''A'', env0, On_disconnect)]"

text \<open>A burst of 101 broadcasts by alice, told apart by their payloads.\<close>

definition burst_msg :: "nat \<Rightarrow> message" where
  "burst_msg i = messageObj (js ''A'') alice env0
      (client_send (js (replicate i CHR ''x'')) JNull (js ''alice''))"

definition burst :: "(env \<times> jsval) list" where
  "burst = map (\<lambda>i. (env0,
      client_send (js (replicate i CHR ''x'')) JNull (js ''alice''))) [0..<101]"

text \<open>Connection \<open>A\<close> alone is open; \<open>A\<close> and \<open>B\<close> are open and nobody has logged in.\<close>

definition a_open :: state where
  "a_open = run initial [(js ''A'', env0, On_connection)]"

definition both_open :: state where
  "both_open = run initial [(js ''A'', env0, On_connection), (js ''B'', env0, On_connection)]"

text \<open>The second session after the burst: the history is full.\<close>

definition busy_chat :: state where
  "busy_chat = run alice_and_guest (sends (js ''A'') burst)"

section \<open>Properties\<close>

subsection \<open>Literals\<close>

lemma unat_code_unit: "unat (of_nat (of_char c) :: code_unit) = of_char c"
proof -
  have "(of_char c :: nat) mod 256 = of_char c" by simp
  then have "(of_char c :: nat) < 256"
    by (metis mod_less_divisor zero_less_numeral)
  then have "(of_char c :: nat) < 65536" by linarith
  then have "(of_char c :: nat) mod 65536 = of_char c" by (rule mod_less)
  then show ?thesis by (simp add: unat_of_nat)
qed

lemma js_inj: "inj js"
proof (rule injI)
  fix a b assume "js a = js b"
  then have "map unat (js a) = map unat (js b)" by simp
  then have "map (of_char :: char \<Rightarrow> nat) a = map of_char b"
    by (simp add: js_def comp_def unat_code_unit)
  then show "a = b" by (simp add: inj_map_eq_map[OF inj_of_char])
qed

lemma js_eq_iff [simp]: "js a = js b \<longleftrightarrow> a = b"
  using js_inj by (simp add: inj_eq)

lemma js_Nil_iff [simp]: "js s = [] \<longleftrightarrow> s = []" "[] = js s \<longleftrightarrow> s = []"
  by (auto simp: js_def)

lemma js_append [simp]: "js a @ js b = js (a @ b)"
  by (simp add: js_def)

lemma length_js [simp]: "length (js s) = length s"
  by (simp add: js_def)

subsection \<open>Containers\<close>

lemma Map_get_set: "Map_get (Map_set m k v) k' = (if k' = k then Some v else Map_get m k')"
  by (induction m) auto

lemma Map_get_delete: "Map_get (Map_delete m k) k' = (if k' = k then None else Map_get m k')"
  by (induction m) auto

lemma Map_set_present: "Map_get m k \<noteq> None \<Longrightarrow> length (Map_set m k v) = length m"
  by (induction m) auto

lemma Map_get_keys: "Map_get m k \<noteq> None \<longleftrightarrow> k \<in> set (map fst m)"
  by (induction m) auto

lemma last_history_push: "last (history_push h m) = m"
  by (cases h) (auto simp: history_push_def Let_def)

lemma history_push_nonempty: "history_push h m \<noteq> []"
  by (cases h) (auto simp: history_push_def Let_def)

lemma length_history_push: "length h \<le> 100 \<Longrightarrow> length (history_push h m) \<le> 100"
  by (auto simp: history_push_def Let_def)

lemma foldl_history_push:
  "length h \<le> 100 \<Longrightarrow> foldl history_push h ms = drop (length (h @ ms) - 100) (h @ ms)"
proof (induction ms arbitrary: h)
  case Nil
  then show ?case by simp
next
  case (Cons m ms)
  have le: "length (history_push h m) \<le> 100"
    using Cons.prems by (rule length_history_push)
  have "foldl history_push (history_push h m) ms
        = drop (length (history_push h m @ ms) - 100) (history_push h m @ ms)"
    using Cons.IH[OF le] .
  also have "\<dots> = drop (length (h @ m # ms) - 100) (h @ m # ms)"
  proof (cases "length h = 100")
    case True
    then have ne: "h \<noteq> []" by auto
    have hp: "history_push h m = tl h @ [m]"
      using True ne by (simp add: history_push_def Let_def)
    have "length (h @ m # ms) - 100 = Suc (length ms)"
      using True by simp
    then have "drop (length (h @ m # ms) - 100) (h @ m # ms) = drop (length ms) (tl h @ m # ms)"
      using ne by (simp add: drop_Suc)
    moreover have "length (history_push h m @ ms) - 100 = length ms"
      using True ne by (simp add: hp)
    ultimately show ?thesis by (simp add: hp)
  next
    case False
    then have "history_push h m = h @ [m]"
      using Cons.prems by (simp add: history_push_def Let_def)
    then show ?thesis by simp
  qed
  finally show ?case by simp
qed

lemma slice_neg: "0 < n \<Longrightarrow> slice (- int n) xs = drop (length xs - n) xs"
  by (auto simp: slice_def Let_def max_def nat_diff_distrib intro: arg_cong2[where f=drop])

lemma slice_30: "slice (- 30) xs = drop (length xs - 30) xs"
  using slice_neg[of 30 xs] by simp

lemma recentHistory_drop: "recentHistory limit h = drop (length h - limit) h"
  by (simp add: recentHistory_def rev_take)

subsection \<open>The invariant\<close>

lemma inv_initial: "server_inv initial"
  by (simp add: server_inv_def initial_def)

lemma inv_user_login:
  "server_inv s \<Longrightarrow> sid \<in> sockets s \<Longrightarrow> server_inv (fst (user_login sid e data s))"
  by (auto simp: server_inv_def user_login_def Let_def Map_get_set split: jsval.splits)

lemma inv_send_message: "server_inv s \<Longrightarrow> server_inv (fst (send_message sid e data s))"
  by (auto simp: server_inv_def send_message_def Let_def length_history_push split: option.splits)

lemma inv_disconnect:
  "server_inv s \<Longrightarrow> sid \<in> sockets s \<Longrightarrow>
   server_inv (fst (disconnect sid e (s\<lparr>sockets := sockets s - {sid}\<rparr>)))"
  by (auto simp: server_inv_def disconnect_def Let_def Map_get_delete split: option.splits)

lemma inv_step: "server_inv s \<Longrightarrow> server_inv (fst (step s x))"
proof (cases x)
  case (fields sid e ev)
  assume i: "server_inv s"
  show ?thesis
  proof (cases ev)
    case On_connection
    then show ?thesis using i fields by (auto simp: step_def server_inv_def)
  next
    case (On_user_login data)
    then show ?thesis using i fields by (simp add: step_def inv_user_login)
  next
    case (On_send_message data)
    then show ?thesis using i fields by (simp add: step_def inv_send_message)
  next
    case On_user_typing
    then show ?thesis
      using i fields by (auto simp: step_def user_typing_def split: option.splits)
  next
    case On_user_stopped_typing
    then show ?thesis
      using i fields by (auto simp: step_def user_stopped_typing_def split: option.splits)
  next
    case On_disconnect
    then show ?thesis using i fields by (simp add: step_def inv_disconnect)
  next
    case On_error
    then show ?thesis using i fields by (simp add: step_def)
  next
    case On_ping
    then show ?thesis using i fields by (simp add: step_def ping_def)
  qed
qed

lemma inv_run: "server_inv s \<Longrightarrow> server_inv (run s xs)"
  by (induction xs arbitrary: s) (simp_all add: run_def inv_step)

lemma inv_reachable: "server_inv (run initial evs)"
  by (rule inv_run) (rule inv_initial)

lemma run_append: "run s (xs @ ys) = run (run s xs) ys"
  by (simp add: run_def)

lemma run_Cons: "run s (x # xs) = run (fst (step s x)) xs"
  by (simp add: run_def)

subsection \<open>The concrete sessions, evaluated\<close>

lemma trim_alice: "trim (js ''alice'') = js ''alice''"
  by (simp add: trim_def js_whitespace_def js_def)

lemma trim_bob: "trim (js ''bob'') = js ''bob''"
  by (simp add: trim_def js_whitespace_def js_def)

lemma trim_nbsp_bob: "trim (0x00A0 # js ''bob'' @ [0xFEFF, 0x2003]) = js ''bob''"
  by (simp add: trim_def js_whitespace_def js_def)

lemma trim_long_name:
  "trim (js ''an-extraordinarily-long-username'') = js ''an-extraordinarily-long-username''"
  by (simp add: trim_def js_whitespace_def js_def)

lemma trim_spaces: "trim (js ''   '') = []"
  by (simp add: trim_def js_whitespace_def js_def)

lemma alice_online_eq:
  "alice_online = \<lparr>sockets = {js ''A''}, users = [(js ''A'', alice)],
                   userSessions = [(js ''A'', js ''A'')], messageHistory = []\<rparr>"
  by (simp add: alice_online_def run_def step_def initial_def user_login_def client_login_def
      Let_def trim_alice alice_def env0_def)

lemma alice_and_guest_eq:
  "alice_and_guest = \<lparr>sockets = {js ''A'', js ''B''}, users = [(js ''A'', alice)],
                      userSessions = [(js ''A'', js ''A'')], messageHistory = []\<rparr>"
  by (auto simp: alice_and_guest_def run_def step_def initial_def user_login_def client_login_def
      Let_def trim_alice alice_def env0_def)

lemma alice_gone_eq:
  "alice_gone = \<lparr>sockets = {}, users = [], userSessions = [], messageHistory = []\<rparr>"
proof -
  have "alice_gone = fst (step alice_online (js ''A'', env0, On_disconnect))"
    by (simp add: alice_gone_def alice_online_def run_def)
  then show ?thesis
    by (simp add: alice_online_eq step_def disconnect_def Let_def)
qed

lemma burst_msg_inj: "inj burst_msg"
  by (rule injI) (simp add: burst_msg_def messageObj_def client_send_def)

lemma burst_msgs: "map (\<lambda>(e, d). messageObj (js ''A'') alice e d) burst = map burst_msg [0..<101]"
  by (simp add: burst_def burst_msg_def comp_def)

subsection \<open>Sending on a registered connection\<close>

lemma send_message_registered:
  assumes "server_inv s" "Map_get (users s) sid = Some u" "destructurable data"
  shows "fst (send_message sid e data s)
         = s\<lparr>messageHistory := history_push (messageHistory s) (messageObj sid u e data)\<rparr>"
proof -
  from assms(1,2) have "Map_get (userSessions s) sid = Some sid" "sid \<noteq> []"
    by (auto simp: server_inv_def)
  then show ?thesis using assms(2,3) by (simp add: send_message_def Let_def)
qed

lemma step_send_registered:
  assumes "server_inv s" "Map_get (users s) sid = Some u" "destructurable data"
  shows "fst (step s (sid, e, On_send_message data))
         = s\<lparr>messageHistory := history_push (messageHistory s) (messageObj sid u e data)\<rparr>"
proof -
  from assms(1,2) have "sid \<in> sockets s" by (auto simp: server_inv_def)
  then show ?thesis using send_message_registered[OF assms] by (simp add: step_def)
qed

lemma run_sends:
  assumes "server_inv s" "Map_get (users s) sid = Some u"
    "list_all (\<lambda>(e, d). destructurable d) xs"
  shows "run s (sends sid xs)
         = s\<lparr>messageHistory := foldl history_push (messageHistory s)
                                  (map (\<lambda>(e, d). messageObj sid u e d) xs)\<rparr>"
  using assms
proof (induction xs arbitrary: s)
  case Nil
  then show ?case by (simp add: sends_def run_def)
next
  case (Cons x xs)
  obtain e d where x: "x = (e, d)" by (cases x)
  let ?s1 = "s\<lparr>messageHistory := history_push (messageHistory s) (messageObj sid u e d)\<rparr>"
  have d: "destructurable d" using Cons.prems(3) x by simp
  have st: "fst (step s (sid, e, On_send_message d)) = ?s1"
    using step_send_registered[OF Cons.prems(1,2) d] .
  have i1: "server_inv ?s1"
    using inv_step[OF Cons.prems(1), of "(sid, e, On_send_message d)"] st by simp
  have u1: "Map_get (users ?s1) sid = Some u" using Cons.prems(2) by simp
  have r: "list_all (\<lambda>(e, d). destructurable d) xs" using Cons.prems(3) by simp
  have "run s (sends sid (x # xs)) = run ?s1 (sends sid xs)"
    using st x by (simp add: sends_def run_Cons)
  also have "\<dots> = ?s1\<lparr>messageHistory := foldl history_push (messageHistory ?s1)
                                  (map (\<lambda>(e, d). messageObj sid u e d) xs)\<rparr>"
    using Cons.IH[OF i1 u1 r] .
  finally show ?case using x by simp
qed

lemma hd_notin_drop: "distinct xs \<Longrightarrow> 0 < n \<Longrightarrow> hd xs \<notin> set (drop n xs)"
  by (cases xs; cases n) (auto dest: in_set_dropD)

lemma a_open_eq:
  "a_open = \<lparr>sockets = {js ''A''}, users = [], userSessions = [], messageHistory = []\<rparr>"
  by (simp add: a_open_def run_def step_def initial_def)

lemma both_open_eq:
  "both_open = \<lparr>sockets = {js ''A'', js ''B''}, users = [], userSessions = [], messageHistory = []\<rparr>"
  by (auto simp: both_open_def run_def step_def initial_def)

lemma alice_and_guest_run:
  "alice_and_guest = run initial [(js ''A'', env0, On_connection), (js ''B'', env0, On_connection),
                  (js ''A'', env0, On_user_login (client_login (js ''alice'') (js ''PK-A'')))]"
  by (simp add: alice_and_guest_def)

lemma busy_chat_eq: "busy_chat = alice_and_guest\<lparr>messageHistory := map burst_msg [1..<101]\<rparr>"
proof -
  have i: "server_inv alice_and_guest"
    unfolding alice_and_guest_run by (rule inv_reachable)
  have u: "Map_get (users alice_and_guest) (js ''A'') = Some alice"
    by (simp add: alice_and_guest_eq)
  have d: "list_all (\<lambda>(e, d). destructurable d) burst"
    by (simp add: burst_def list_all_iff client_send_def)
  have "foldl history_push [] (map burst_msg [0..<101]) = map burst_msg [1..<101]"
    using foldl_history_push[of "[]" "map burst_msg [0..<101]"] by (simp add: drop_map)
  then show ?thesis
    using run_sends[OF i u d] by (simp add: busy_chat_def burst_msgs alice_and_guest_eq)
qed

subsection \<open>Logging in\<close>

lemma trim_Nil: "trim [] = []"
  by (simp add: trim_def)

lemma user_login_accepted:
  assumes "field data (js ''username'')
      = JStr name" "name \<noteq> []" "truthy (field data (js ''publicKey''))"
  shows "user_login sid e data s =
     (s\<lparr>users := Map_set (users s) sid
                   \<lparr>user_id = sid, username = trim name, publicKey = field data (js ''publicKey''),
                    socketId = sid, connectedAt = date e\<rparr>,
        userSessions := Map_set (userSessions s) sid sid\<rparr>,
      [(Io_emit, Ev_user_connected sid (JStr name) (iso e)
                   (Map_size (Map_set (users s) sid
                      \<lparr>user_id = sid, username = trim name, publicKey
                          = field data (js ''publicKey''),
                       socketId = sid, connectedAt = date e\<rparr>))),
       (Socket_emit sid,
          Ev_online_users (map (\<lambda>u. (user_id u, username u, publicKey u))
            (Map_values (Map_set (users s) sid
                      \<lparr>user_id = sid, username = trim name, publicKey
                          = field data (js ''publicKey''),
                       socketId = sid, connectedAt = date e\<rparr>)))),
       (Socket_emit sid, Ev_message_history (slice (- 30) (messageHistory s)))],
      Normal)"
proof -
  have "destructurable data" using assms(1) by (cases data) auto
  then show ?thesis using assms by (simp add: user_login_def Let_def)
qed

lemma send_message_broadcast:
  assumes "server_inv s" "Map_get (users s) sid = Some u" "destructurable data"
    "\<not> truthy (field data (js ''recipientId''))"
  shows "fst (snd (send_message sid e data s))
         = [(Io_emit, Ev_receive_message (messageObj sid u e data)),
            (Socket_emit sid, Ev_message_sent (msg_id (messageObj sid u e data))
                                              (timestamp (messageObj sid u e data)))]"
proof -
  from assms(1,2) have "Map_get (userSessions s) sid = Some sid" "sid \<noteq> []"
    by (auto simp: server_inv_def)
  then show ?thesis using assms(2,3,4) by (simp add: send_message_def Let_def)
qed

section \<open>The claims\<close>

subsection \<open>Registration\<close>

text \<open>
  C1 (as amended). A second \<open>user_login\<close> on a connection that already has a user,
  with a non-empty username and public key, is accepted: the handler completes
  normally, emits no \<open>error\<close> event, and \<open>users.set\<close> replaces the stored user by
  the new one (trimmed name, new key, new \<open>connectedAt\<close>). The last write wins, and
  the number of registered users stays the same.
\<close>

theorem C1_second_login_replaces:
  assumes "Map_get (users s) sid = Some old"
    and "field data (js ''username'') = JStr name" and "name \<noteq> []"
    and "truthy (field data (js ''publicKey''))"
  shows "snd (snd (user_login sid e data s)) = Normal
       \<and> (a, Ev_error msg) \<notin> set (fst (snd (user_login sid e data s)))
       \<and> Map_get (users (fst (user_login sid e data s))) sid
           = Some \<lparr>user_id = sid, username = trim name, publicKey = field data (js ''publicKey''),
                   socketId = sid, connectedAt = date e\<rparr>
       \<and> Map_size (users (fst (user_login sid e data s))) = Map_size (users s)"
  using assms(1)
  by (simp add: user_login_accepted[OF assms(2,3,4)] Map_get_set Map_size_def Map_set_present)

theorem C1_second_login_replaces_witness:
  "snd (snd (user_login (js ''A'') env0 (client_login (js ''bob'') (js ''PK-B'')) alice_online))
      = Normal
   \<and> (Socket_emit (js ''A''), Ev_error (js ''Username and public key required''))
       \<notin> set (fst (snd (user_login (js ''A'') env0
           (client_login (js ''bob'') (js ''PK-B'')) alice_online)))
   \<and> Map_get (users (fst (user_login (js ''A'') env0
       (client_login (js ''bob'') (js ''PK-B'')) alice_online))) (js ''A'')
       = Some \<lparr>user_id = js ''A'', username = js ''bob'', publicKey = JStr (js ''PK-B''),
               socketId = js ''A'', connectedAt = js ''2023-11-14T22:13:20.000Z''\<rparr>
   \<and> Map_size (users (fst (user_login (js ''A'') env0
       (client_login (js ''bob'') (js ''PK-B'')) alice_online))) = 1"
proof -
  have u: "Map_get (users alice_online) (js ''A'') = Some alice"
    by (simp add: alice_online_eq)
  have a: "field (client_login (js ''bob'') (js ''PK-B'')) (js ''username'') = JStr (js ''bob'')"
    by (simp add: client_login_def)
  have b: "(js ''bob'') \<noteq> []" by simp
  have c: "truthy (field (client_login (js ''bob'') (js ''PK-B'')) (js ''publicKey''))"
    by (simp add: client_login_def)
  have t: "trim (js ''bob'') = js ''bob''" by (rule trim_bob)
  show ?thesis
    using C1_second_login_replaces[OF u a b c, where a = "Socket_emit (js ''A'')"
        and msg = "(js ''Username and public key required'')" and e = env0]
    by (simp add: t client_login_def env0_def alice_online_eq Map_size_def)
qed

text \<open>
  Against C1 as stated: alice is registered on \<open>A\<close>; a second login on \<open>A\<close> as bob
  is not rejected, and afterwards the user stored for \<open>A\<close> is bob.
\<close>

theorem C1_counterexample:
  "Map_get (users alice_online) (js ''A'') = Some alice
   \<and> user_login (js ''A'') env0 (client_login (js ''bob'') (js ''PK-B'')) alice_online
       = (\<lparr>sockets = {js ''A''},
           users = [(js ''A'', \<lparr>user_id = js ''A'', username = js ''bob'', publicKey
               = JStr (js ''PK-B''),
                             socketId = js ''A'', connectedAt = js ''2023-11-14T22:13:20.000Z''\<rparr>)],
           userSessions = [(js ''A'', js ''A'')], messageHistory = []\<rparr>,
          [(Io_emit, Ev_user_connected (js ''A'')
              (JStr (js ''bob'')) (js ''2023-11-14T22:13:20.000Z'') 1),
           (Socket_emit (js ''A''), Ev_online_users [(js ''A'', js ''bob'', JStr (js ''PK-B''))]),
           (Socket_emit (js ''A''), Ev_message_history [])],
          Normal)"
  by (simp add: alice_online_eq user_login_def client_login_def Let_def trim_bob
      env0_def Map_size_def Map_values_def slice_def)

text \<open>
  C2 (as amended). A \<open>user_login\<close> event that carries a payload (any value but
  \<open>undefined\<close> and \<open>null\<close>) is rejected, with the \<open>error\<close> event "Username and
  public key required" to the originating connection and no change of state, when
  the username or the public key is missing or empty. The server enforces no upper
  bound on the length of the name: for every string name whose trimmed length is at
  least 1, sent with a non-empty public key, the login is accepted and \<open>users.get\<close> on
  the same connection id then returns a user whose name is the trimmed name.
\<close>

theorem C2_login_validation:
  "(destructurable data \<longrightarrow>
      \<not> truthy (field data (js ''username'')) \<or> \<not> truthy (field data (js ''publicKey'')) \<longrightarrow>
      user_login sid e data s
        = (s, [(Socket_emit sid, Ev_error (js ''Username and public key required''))], Normal))
   \<and> (field data' (js ''username'') = JStr name \<longrightarrow> 1 \<le> length (trim name) \<longrightarrow>
      truthy (field data' (js ''publicKey'')) \<longrightarrow>
      snd (snd (user_login sid e data' s)) = Normal
      \<and> (a, Ev_error msg) \<notin> set (fst (snd (user_login sid e data' s)))
      \<and> map_option username (Map_get (users (fst (user_login sid e data' s))) sid)
          = Some (trim name))"
proof -
  have "user_login sid e data s
        = (s, [(Socket_emit sid, Ev_error (js ''Username and public key required''))], Normal)"
    if "destructurable data"
      "\<not> truthy (field data (js ''username'')) \<or> \<not> truthy (field data (js ''publicKey''))"
    using that by (auto simp: user_login_def Let_def)
  moreover have "snd (snd (user_login sid e data' s)) = Normal
      \<and> (a, Ev_error msg) \<notin> set (fst (snd (user_login sid e data' s)))
      \<and> map_option username (Map_get (users (fst (user_login sid e data' s))) sid)
          = Some (trim name)"
    if u: "field data' (js ''username'') = JStr name" and l: "1 \<le> length (trim name)"
      and k: "truthy (field data' (js ''publicKey''))"
  proof -
    have ne: "name \<noteq> []" using l by (auto simp: trim_Nil)
    show ?thesis by (simp add: user_login_accepted[OF u ne k] Map_get_set)
  qed
  ultimately show ?thesis by blast
qed

text \<open>
  The witness logs in with a name padded by a no-break space in front and by a
  zero-width no-break space and an em space behind.
\<close>

theorem C2_login_validation_witness:
  "user_login (js ''A'') env0 (client_login [] (js ''PK-A'')) a_open
     = (a_open, [(Socket_emit (js ''A''), Ev_error (js ''Username and public key required''))],
         Normal)
   \<and> snd (snd (user_login (js ''A'') env0
               (client_login (0x00A0 # js ''bob'' @ [0xFEFF, 0x2003]) (js ''PK-A'')) a_open))
                   = Normal
   \<and> (Socket_emit (js ''A''), Ev_error (js ''Username and public key required''))
        \<notin> set (fst (snd (user_login (js ''A'') env0
                            (client_login (0x00A0 # js ''bob'' @ [0xFEFF, 0x2003]) (js ''PK-A''))
                            a_open)))
   \<and> map_option username
        (Map_get (users (fst (user_login (js ''A'') env0
                               (client_login (0x00A0 # js ''bob'' @ [0xFEFF, 0x2003]) (js ''PK-A''))
                               a_open))) (js ''A''))
       = Some (js ''bob'')"
proof -
  have d: "destructurable (client_login [] (js ''PK-A''))"
    by (simp add: client_login_def)
  have f: "\<not> truthy (field (client_login [] (js ''PK-A'')) (js ''username''))
           \<or> \<not> truthy (field (client_login [] (js ''PK-A'')) (js ''publicKey''))"
    by (simp add: client_login_def)
  have u: "field (client_login (0x00A0 # js ''bob'' @ [0xFEFF,
      0x2003]) (js ''PK-A'')) (js ''username'')
           = JStr (0x00A0 # js ''bob'' @ [0xFEFF, 0x2003])"
    by (simp add: client_login_def)
  have l: "1 \<le> length (trim (0x00A0 # js ''bob'' @ [0xFEFF, 0x2003]))"
    by (simp add: trim_nbsp_bob)
  have k: "truthy (field (client_login (0x00A0 # js ''bob'' @ [0xFEFF, 0x2003]) (js ''PK-A''))
                     (js ''publicKey''))"
    by (simp add: client_login_def)
  note t = C2_login_validation[where data = "client_login [] (js ''PK-A'')"
        and data' = "client_login (0x00A0 # js ''bob'' @ [0xFEFF, 0x2003]) (js ''PK-A'')"
        and name = "0x00A0 # js ''bob'' @ [0xFEFF, 0x2003]"
        and sid = "js ''A''" and e = env0 and s = a_open and a = "Socket_emit (js ''A'')"
        and msg = "js ''Username and public key required''"]
  from t d f have "user_login (js ''A'') env0 (client_login [] (js ''PK-A'')) a_open
     = (a_open, [(Socket_emit (js ''A''), Ev_error (js ''Username and public key required''))],
         Normal)"
    by blast
  moreover from t u l k have
    "snd (snd (user_login (js ''A'') env0
               (client_login (0x00A0 # js ''bob'' @ [0xFEFF, 0x2003]) (js ''PK-A'')) a_open))
                   = Normal
     \<and> (Socket_emit (js ''A''), Ev_error (js ''Username and public key required''))
        \<notin> set (fst (snd (user_login (js ''A'') env0
                            (client_login (0x00A0 # js ''bob'' @ [0xFEFF, 0x2003]) (js ''PK-A''))
                            a_open)))
     \<and> map_option username
        (Map_get (users (fst (user_login (js ''A'') env0
                               (client_login (0x00A0 # js ''bob'' @ [0xFEFF, 0x2003]) (js ''PK-A''))
                               a_open))) (js ''A''))
       = Some (trim (0x00A0 # js ''bob'' @ [0xFEFF, 0x2003]))"
    by blast
  ultimately show ?thesis by (simp add: trim_nbsp_bob)
qed

text \<open>
  Against C2 as stated. A name of 32 characters is accepted and registered. A name
  of 5 characters sent without a public key is rejected. A name of three spaces,
  whose trimmed length is 0, is accepted and registered with the empty name.
\<close>

theorem C2_counterexample:
  "length (trim (js ''an-extraordinarily-long-username'')) = 32
   \<and> user_login (js ''A'') env0
       (client_login (js ''an-extraordinarily-long-username'') (js ''PK-A'')) a_open
       = (\<lparr>sockets = {js ''A''},
           users = [(js ''A'', \<lparr>user_id = js ''A'', username
               = js ''an-extraordinarily-long-username'',
                                publicKey = JStr (js ''PK-A''), socketId = js ''A'',
                                connectedAt = js ''2023-11-14T22:13:20.000Z''\<rparr>)],
           userSessions = [(js ''A'', js ''A'')], messageHistory = []\<rparr>,
          [(Io_emit, Ev_user_connected (js ''A'') (JStr (js ''an-extraordinarily-long-username''))
                       (js ''2023-11-14T22:13:20.000Z'') 1),
           (Socket_emit (js ''A''),
              Ev_online_users [(js ''A'', js ''an-extraordinarily-long-username'',
                  JStr (js ''PK-A''))]),
           (Socket_emit (js ''A''), Ev_message_history [])],
          Normal)
   \<and> length (trim (js ''alice'')) = 5
   \<and> user_login (js ''A'') env0 (JObj [(js ''username'', JStr (js ''alice''))]) a_open
       = (a_open, [(Socket_emit (js ''A''), Ev_error (js ''Username and public key required''))],
           Normal)
   \<and> length (trim (js ''   '')) = 0
   \<and> user_login (js ''A'') env0 (client_login (js ''   '') (js ''PK-A'')) a_open
       = (\<lparr>sockets = {js ''A''},
           users = [(js ''A'', \<lparr>user_id = js ''A'', username = [],
                                publicKey = JStr (js ''PK-A''), socketId = js ''A'',
                                connectedAt = js ''2023-11-14T22:13:20.000Z''\<rparr>)],
           userSessions = [(js ''A'', js ''A'')], messageHistory = []\<rparr>,
          [(Io_emit, Ev_user_connected (js ''A'')
              (JStr (js ''   '')) (js ''2023-11-14T22:13:20.000Z'') 1),
           (Socket_emit (js ''A''), Ev_online_users [(js ''A'', [], JStr (js ''PK-A''))]),
           (Socket_emit (js ''A''), Ev_message_history [])],
          Normal)"
  by (simp add: a_open_eq user_login_def client_login_def Let_def trim_long_name trim_alice
      trim_spaces env0_def Map_size_def Map_values_def slice_def)

subsection \<open>Routing\<close>

text \<open>
  C3. What the handler does when alice, the only registered user, sends a direct
  message to the unknown id \<open>xyz\<close>: it emits the \<open>error\<close> event "Recipient not
  found" to alice alone, but the message has been pushed to the history before the
  recipient was looked up, so the history has grown from 0 to 1 entries.
\<close>

theorem C3_unknown_recipient_still_stored:
  "Map_get (users alice_online) (js ''xyz'') = None
   \<and> messageHistory alice_online = []
   \<and> send_message (js ''A'') env0 (client_send (js ''hi'')
       (JStr (js ''xyz'')) (js ''alice'')) alice_online
       = (\<lparr>sockets = {js ''A''}, users = [(js ''A'', alice)], userSessions = [(js ''A'', js ''A'')],
           messageHistory =
             [\<lparr>msg_id = js ''msg_1700000000000_k3j9x2m1q'', sender_id = js ''A'',
               sender_username = JStr (js ''alice''), encryptedMessage = JStr (js ''hi''),
               timestamp = js ''2023-11-14T22:13:20.000Z'', msg_type = js ''direct''\<rparr>]\<rparr>,
          [(Socket_emit (js ''A''), Ev_error (js ''Recipient not found''))],
          Normal)"
  by (simp add: alice_online_eq alice_def send_message_def client_send_def Let_def messageObj_def
      history_push_def env0_def)

text \<open>
  C4. In every state the server reaches the history holds at most 100 messages.
  When a registered connection sends a run of messages, the history afterwards is
  the old history followed by the new messages in send order, cut down from the
  front to its last 100 entries: the oldest are evicted first. Once more than 100
  messages have been stored, the very first one is gone (the stored messages being
  pairwise different).
\<close>

theorem C4_history_capped_fifo:
  assumes "s = run initial evs"
  shows "length (messageHistory s) \<le> 100
       \<and> (Map_get (users s) sid = Some u \<longrightarrow> list_all (\<lambda>(e, d). destructurable d) xs \<longrightarrow>
            messageHistory (run s (sends sid xs))
              = drop (length (messageHistory s @ map (\<lambda>(e, d). messageObj sid u e d) xs) - 100)
                     (messageHistory s @ map (\<lambda>(e, d). messageObj sid u e d) xs)
          \<and> length (messageHistory (run s (sends sid xs))) \<le> 100
          \<and> (100 < length (messageHistory s @ map (\<lambda>(e, d). messageObj sid u e d) xs) \<longrightarrow>
               distinct (messageHistory s @ map (\<lambda>(e, d). messageObj sid u e d) xs) \<longrightarrow>
               hd (messageHistory s @ map (\<lambda>(e, d). messageObj sid u e d) xs)
                 \<notin> set (messageHistory (run s (sends sid xs)))))"
proof -
  have i: "server_inv s" using assms inv_reachable by simp
  then have le: "length (messageHistory s) \<le> 100" by (simp add: server_inv_def)
  {
    assume u: "Map_get (users s) sid = Some u" and d: "list_all (\<lambda>(e, d). destructurable d) xs"
    let ?all = "messageHistory s @ map (\<lambda>(e, d). messageObj sid u e d) xs"
    have h: "messageHistory (run s (sends sid xs)) = drop (length ?all - 100) ?all"
      using run_sends[OF i u d] foldl_history_push[OF le] by simp
    have l: "length (messageHistory (run s (sends sid xs))) \<le> 100"
      unfolding h by simp
    {
      assume big: "100 < length ?all" and dist: "distinct ?all"
      then have "hd ?all \<notin> set (drop (length ?all - 100) ?all)"
        by (intro hd_notin_drop) auto
    }
    then have "100 < length ?all \<longrightarrow> distinct ?all \<longrightarrow>
               hd ?all \<notin> set (messageHistory (run s (sends sid xs)))"
      unfolding h by blast
    note h l this
  }
  then show ?thesis using le by blast
qed

theorem C4_history_capped_fifo_witness:
  "length (messageHistory alice_online) \<le> 100
   \<and> messageHistory (run alice_online (sends (js ''A'') burst)) = map burst_msg [1..<101]
   \<and> length (messageHistory (run alice_online (sends (js ''A'') burst))) \<le> 100
   \<and> burst_msg 0 \<notin> set (messageHistory (run alice_online (sends (js ''A'') burst)))"
proof -
  have r: "alice_online = run initial [(js ''A'', env0, On_connection),
                  (js ''A'', env0, On_user_login (client_login (js ''alice'') (js ''PK-A'')))]"
    by (simp add: alice_online_def)
  have u: "Map_get (users alice_online) (js ''A'') = Some alice"
    by (simp add: alice_online_eq)
  have d: "list_all (\<lambda>(e, d). destructurable d) burst"
    by (simp add: burst_def list_all_iff client_send_def)
  have h0: "messageHistory alice_online = []"
    by (simp add: alice_online_eq)
  have dist: "distinct (map burst_msg [0..<101])"
    by (simp add: distinct_map inj_on_subset[OF burst_msg_inj])
  have dr: "drop (Suc 0) (map burst_msg [0..<101]) = map burst_msg [1..<101]"
    by (simp add: drop_map)
  have hd0: "hd (map burst_msg [0..<101]) = burst_msg 0"
    by (simp add: hd_map upt_conv_Cons)
  show ?thesis
    using C4_history_capped_fifo[OF r, of "(js ''A'')" alice burst] u d dist dr hd0
    by (simp add: h0 burst_msgs inj_image_mem_iff[OF burst_msg_inj])
qed

text \<open>
  C5 (as amended). When a registered connection sends a message with no recipient,
  \<open>io.emit\<close> delivers \<open>receive_message\<close> to every open connection: these include
  every registered connection and the sender, and also connections that are open
  but have not logged in. The sender, and nobody else, receives the \<open>message_sent\<close>
  acknowledgment with the message id and timestamp.
\<close>

theorem C5_broadcast_reaches_every_connection:
  assumes "s = run initial evs" and "Map_get (users s) sid = Some u"
    and "destructurable data" and "\<not> truthy (field data (js ''recipientId''))"
    and "m = messageObj sid u e data"
    and "emits = fst (snd (send_message sid e data s))"
  shows "emits = [(Io_emit, Ev_receive_message m),
                  (Socket_emit sid, Ev_message_sent (msg_id m) (timestamp m))]
       \<and> (Ev_receive_message m \<in> set (inbox (sockets s) emits c)) = (c \<in> sockets s)
       \<and> set (map fst (users s)) \<subseteq> sockets s
       \<and> sid \<in> sockets s
       \<and> (Ev_message_sent (msg_id m) (timestamp m) \<in> set (inbox (sockets s) emits c)) = (c = sid)"
proof -
  have i: "server_inv s" using assms(1) inv_reachable by simp
  have em: "emits = [(Io_emit, Ev_receive_message m),
                  (Socket_emit sid, Ev_message_sent (msg_id m) (timestamp m))]"
    using send_message_broadcast[OF i assms(2,3,4)] assms(5,6) by simp
  have sub: "set (map fst (users s)) \<subseteq> sockets s"
  proof
    fix k assume "k \<in> set (map fst (users s))"
    then have "Map_get (users s) k \<noteq> None" by (simp only: Map_get_keys)
    then show "k \<in> sockets s" using i by (auto simp: server_inv_def)
  qed
  have mem: "sid \<in> sockets s" using i assms(2) by (auto simp: server_inv_def)
  show ?thesis using sub mem by (auto simp: em inbox_def)
qed

theorem C5_broadcast_reaches_every_connection_witness:
  "fst (snd (send_message (js ''A'') env0
      (client_send (js ''hi'') JNull (js ''alice'')) alice_and_guest))
     = [(Io_emit, Ev_receive_message (messageObj (js ''A'') alice env0
         (client_send (js ''hi'') JNull (js ''alice'')))),
        (Socket_emit (js ''A''),
           Ev_message_sent (msg_id (messageObj (js ''A'') alice env0
               (client_send (js ''hi'') JNull (js ''alice''))))
                           (timestamp (messageObj (js ''A'') alice env0
                               (client_send (js ''hi'') JNull (js ''alice'')))))]
   \<and> Ev_receive_message (messageObj (js ''A'') alice env0
       (client_send (js ''hi'') JNull (js ''alice'')))
       \<in> set (inbox (sockets alice_and_guest)
                (fst (snd (send_message (js ''A'') env0
                    (client_send (js ''hi'') JNull (js ''alice'')) alice_and_guest)))
                (js ''A''))
   \<and> js ''A'' \<in> sockets alice_and_guest
   \<and> Ev_message_sent (msg_id (messageObj (js ''A'') alice env0
       (client_send (js ''hi'') JNull (js ''alice''))))
                      (timestamp (messageObj (js ''A'') alice env0
                          (client_send (js ''hi'') JNull (js ''alice''))))
       \<in> set (inbox (sockets alice_and_guest)
                (fst (snd (send_message (js ''A'') env0
                    (client_send (js ''hi'') JNull (js ''alice'')) alice_and_guest)))
                (js ''A''))"
proof -
  have u: "Map_get (users alice_and_guest) (js ''A'') = Some alice"
    by (simp add: alice_and_guest_eq)
  have d: "destructurable (client_send (js ''hi'') JNull (js ''alice''))"
    by (simp add: client_send_def)
  have r: "\<not> truthy (field (client_send (js ''hi'') JNull (js ''alice'')) (js ''recipientId''))"
    by (simp add: client_send_def)
  note t = C5_broadcast_reaches_every_connection[OF alice_and_guest_run u d r refl refl,
      of env0 "(js ''A'')"]
  have "(js ''A'') \<in> sockets alice_and_guest" by (simp add: alice_and_guest_eq)
  with t show ?thesis by blast
qed

text \<open>
  Against C5 as stated: \<open>B\<close> is open and has no registered user, and alice's
  broadcast is delivered to \<open>B\<close>.
\<close>

theorem C5_counterexample:
  "Map_get (users alice_and_guest) (js ''B'') = None
   \<and> Ev_receive_message (messageObj (js ''A'') alice env0
       (client_send (js ''hi'') JNull (js ''alice'')))
       \<in> set (inbox (sockets alice_and_guest)
                (fst (snd (send_message (js ''A'') env0
                    (client_send (js ''hi'') JNull (js ''alice'')) alice_and_guest)))
                (js ''B''))"
  by (simp add: alice_and_guest_eq send_message_def client_send_def Let_def inbox_def)

text \<open>
  C6 (as amended). On every successful login one \<open>user_connected\<close> event, naming
  the new user and carrying the updated number of users, is emitted to all open
  connections, the new user's own included. The new user alone receives the
  \<open>online_users\<close> list (id, name, public key of every registered user) and the
  \<open>message_history\<close> replay.
\<close>

theorem C6_join_announced_to_all:
  assumes "field data (js ''username'') = JStr name" and "name \<noteq> []"
    and "truthy (field data (js ''publicKey''))" and "sid \<in> sockets s"
    and "s' = fst (user_login sid e data s)"
  shows "users s' = Map_set (users s) sid
                      \<lparr>user_id = sid, username = trim name, publicKey
                          = field data (js ''publicKey''),
                       socketId = sid, connectedAt = date e\<rparr>
       \<and> inbox (sockets s) (fst (snd (user_login sid e data s))) c
           = (if c = sid then
                [Ev_user_connected sid (JStr name) (iso e) (Map_size (users s')),
                 Ev_online_users (map (\<lambda>u. (user_id u, username u, publicKey u))
                                      (Map_values (users s'))),
                 Ev_message_history (slice (- 30) (messageHistory s))]
              else if c \<in> sockets s then
                [Ev_user_connected sid (JStr name) (iso e) (Map_size (users s'))]
              else [])"
  using assms(4,5) by (simp add: user_login_accepted[OF assms(1,2,3)] inbox_def)

theorem C6_join_announced_to_all_witness:
  "users (fst (user_login (js ''A'') env0 (client_login (js ''alice'') (js ''PK-A'')) both_open))
      = [(js ''A'', alice)]
   \<and> inbox (sockets both_open)
        (fst (snd (user_login (js ''A'') env0
            (client_login (js ''alice'') (js ''PK-A'')) both_open))) (js ''B'')
       = [Ev_user_connected (js ''A'') (JStr (js ''alice'')) (js ''2023-11-14T22:13:20.000Z'') 1]"
proof -
  have a: "field (client_login (js ''alice'') (js ''PK-A'')) (js ''username'')
      = JStr (js ''alice'')"
    by (simp add: client_login_def)
  have b: "(js ''alice'') \<noteq> []" by simp
  have c: "truthy (field (client_login (js ''alice'') (js ''PK-A'')) (js ''publicKey''))"
    by (simp add: client_login_def)
  have d: "(js ''A'') \<in> sockets both_open" by (simp add: both_open_eq)
  show ?thesis
    using C6_join_announced_to_all[OF a b c d refl, of env0 "(js ''B'')"]
    by (simp add: both_open_eq client_login_def trim_alice alice_def env0_def Map_size_def)
qed

text \<open>
  Against C6 as stated: the first event the new user \<open>A\<close> receives on its own login
  is the join announcement that names \<open>A\<close>.
\<close>

theorem C6_counterexample:
  "inbox (sockets both_open)
     (fst (snd (user_login (js ''A'') env0
         (client_login (js ''alice'') (js ''PK-A'')) both_open))) (js ''A'')
   = [Ev_user_connected (js ''A'') (JStr (js ''alice'')) (js ''2023-11-14T22:13:20.000Z'') 1,
      Ev_online_users [(js ''A'', js ''alice'', JStr (js ''PK-A''))],
      Ev_message_history []]"
  by (simp add: both_open_eq user_login_def client_login_def Let_def inbox_def trim_alice
      env0_def Map_size_def Map_values_def slice_def)

text \<open>
  C7 (as amended). Every message created by \<open>send_message\<close> carries the sender's
  connection id together with a display name that is the client's \<open>senderUsername\<close>
  when one is sent (truthy), and the sender's registered name at send time
  otherwise.
\<close>

theorem C7_sender_name_from_client:
  assumes "s = run initial evs" and "Map_get (users s) sid = Some u" and "destructurable data"
    and "h = messageHistory (fst (send_message sid e data s))"
  shows "h \<noteq> []
       \<and> last h = messageObj sid u e data
       \<and> sender_id (last h) = sid
       \<and> sender_username (last h)
           = (if truthy (field data (js ''senderUsername'')) then field data (js ''senderUsername'')
              else JStr (username u))"
proof -
  have i: "server_inv s" using assms(1) inv_reachable by simp
  have "h = history_push (messageHistory s) (messageObj sid u e data)"
    using send_message_registered[OF i assms(2,3)] assms(4) by simp
  then show ?thesis
    by (simp add: history_push_nonempty last_history_push) (simp add: messageObj_def)
qed

theorem C7_sender_name_from_client_witness:
  "messageHistory (fst (send_message (js ''A'') env0 (JObj [(js ''encryptedMessage'',
      JStr (js ''hi''))]) alice_online)) \<noteq> []
   \<and> sender_id (last (messageHistory
        (fst (send_message (js ''A'') env0 (JObj [(js ''encryptedMessage'',
            JStr (js ''hi''))]) alice_online)))) = js ''A''
   \<and> sender_username (last (messageHistory
        (fst (send_message (js ''A'') env0 (JObj [(js ''encryptedMessage'',
            JStr (js ''hi''))]) alice_online))))
       = JStr (js ''alice'')"
proof -
  have r: "alice_online = run initial [(js ''A'', env0, On_connection),
                  (js ''A'', env0, On_user_login (client_login (js ''alice'') (js ''PK-A'')))]"
    by (simp add: alice_online_def)
  have u: "Map_get (users alice_online) (js ''A'') = Some alice"
    by (simp add: alice_online_eq)
  have d: "destructurable (JObj [(js ''encryptedMessage'', JStr (js ''hi''))])"
    by simp
  show ?thesis
    using C7_sender_name_from_client[OF r u d refl, of env0] by (simp add: alice_def messageObj_def)
qed

text \<open>
  Against C7 as stated: alice broadcasts with \<open>senderUsername\<close> "mallory"; the
  stored message names mallory, not the registered name, and its type is "direct"
  although no recipient was given.
\<close>

theorem C7_counterexample:
  "Map_get (users alice_online) (js ''A'') = Some alice
   \<and> username alice = js ''alice''
   \<and> field (client_send (js ''hi'') JNull (js ''mallory'')) (js ''recipientId'') = JNull
   \<and> messageHistory (fst (send_message (js ''A'') env0
       (client_send (js ''hi'') JNull (js ''mallory'')) alice_online))
       = [\<lparr>msg_id = js ''msg_1700000000000_k3j9x2m1q'', sender_id = js ''A'',
           sender_username = JStr (js ''mallory''), encryptedMessage = JStr (js ''hi''),
           timestamp = js ''2023-11-14T22:13:20.000Z'', msg_type = js ''direct''\<rparr>]"
  by (simp add: alice_online_eq alice_def send_message_def client_send_def Let_def messageObj_def
      history_push_def env0_def)

text \<open>
  C8. What the handler does when alice sends \<open>send_message\<close> without the
  \<open>encryptedMessage\<close> field: no \<open>error\<close> event is emitted; a message with an
  undefined payload is pushed to the history and broadcast to every open connection,
  alice is acknowledged, and the handler then ends in a \<open>TypeError\<close>.
\<close>

theorem C8_missing_payload_throws:
  "send_message (js ''A'') env0 (JObj [(js ''recipientId'', JNull), (js ''senderUsername'',
      JStr (js ''alice''))])
     alice_and_guest
   = (\<lparr>sockets = {js ''A'', js ''B''}, users = [(js ''A'', alice)], userSessions = [(js ''A'',
       js ''A'')],
       messageHistory =
         [\<lparr>msg_id = js ''msg_1700000000000_k3j9x2m1q'', sender_id = js ''A'',
           sender_username = JStr (js ''alice''), encryptedMessage = JUndefined,
           timestamp = js ''2023-11-14T22:13:20.000Z'', msg_type = js ''direct''\<rparr>]\<rparr>,
      [(Io_emit, Ev_receive_message
                   \<lparr>msg_id = js ''msg_1700000000000_k3j9x2m1q'', sender_id = js ''A'',
                    sender_username = JStr (js ''alice''), encryptedMessage = JUndefined,
                    timestamp = js ''2023-11-14T22:13:20.000Z'', msg_type = js ''direct''\<rparr>),
       (Socket_emit (js ''A''),
           Ev_message_sent (js ''msg_1700000000000_k3j9x2m1q'') (js ''2023-11-14T22:13:20.000Z''))],
      TypeError)"
  by (simp add: alice_and_guest_eq alice_def send_message_def Let_def messageObj_def
      history_push_def env0_def)

text \<open>
  C9. In every state the server reaches, a \<open>send_message\<close> that carries a payload
  object and arrives on a connection with no registered user (before its login, or
  after its disconnect) is rejected: the handler emits one \<open>error\<close> event, "User not
  authenticated", to the originating connection and to nobody else, and leaves the
  state, the message history included, as it was.
\<close>

theorem C9_unregistered_sender_rejected:
  assumes "s = run initial evs" and "Map_get (users s) sid = None" and "destructurable data"
  shows "send_message sid e data s
           = (s, [(Socket_emit sid, Ev_error (js ''User not authenticated''))], Normal)
       \<and> messageHistory (fst (send_message sid e data s)) = messageHistory s
       \<and> inbox (sockets s) (fst (snd (send_message sid e data s))) c
           = (if c = sid then [Ev_error (js ''User not authenticated'')] else [])"
proof -
  have "server_inv s" using assms(1) inv_reachable by simp
  then have "Map_get (userSessions s) sid = None"
    using assms(2) by (simp add: server_inv_def)
  then have "send_message sid e data s
             = (s, [(Socket_emit sid, Ev_error (js ''User not authenticated''))], Normal)"
    using assms(3) by (simp add: send_message_def)
  then show ?thesis by (simp add: inbox_def)
qed

theorem C9_unregistered_sender_rejected_witness:
  "send_message (js ''A'') env0 (client_send (js ''hi'') JNull (js ''alice'')) alice_gone
     = (alice_gone, [(Socket_emit (js ''A''), Ev_error (js ''User not authenticated''))], Normal)
   \<and> messageHistory (fst (send_message (js ''A'') env0
       (client_send (js ''hi'') JNull (js ''alice'')) alice_gone))
       = messageHistory alice_gone
   \<and> inbox (sockets alice_gone)
        (fst (snd (send_message (js ''A'') env0
            (client_send (js ''hi'') JNull (js ''alice'')) alice_gone))) (js ''B'')
       = []"
proof -
  have r: "alice_gone = run initial [(js ''A'', env0, On_connection),
                  (js ''A'', env0, On_user_login (client_login (js ''alice'') (js ''PK-A''))),
                  (js ''A'', env0, On_disconnect)]"
    by (simp add: alice_gone_def)
  have u: "Map_get (users alice_gone) (js ''A'') = None"
    by (simp add: alice_gone_eq)
  have d: "destructurable (client_send (js ''hi'') JNull (js ''alice''))"
    by (simp add: client_send_def)
  show ?thesis
    using C9_unregistered_sender_rejected[OF r u d, of env0 "(js ''B'')"] by (simp add: inbox_def)
qed

subsection \<open>History replay\<close>

text \<open>
  C10. \<open>recentHistory limit\<close> is the tail of the history of length \<open>limit\<close> (or the
  whole history when it is shorter), in the stored, oldest-first order, and
  \<open>slice(-limit)\<close> computes it for every positive limit. On a successful login the
  \<open>message_history\<close> event carries exactly \<open>recentHistory 30\<close> of the history, goes to
  the new user alone, and the history itself is left as it was, whatever its length.
\<close>

theorem C10_replay_is_recent_30:
  assumes "field data (js ''username'') = JStr name" and "name \<noteq> []"
    and "truthy (field data (js ''publicKey''))"
  shows "(Ev_message_history h \<in> set (inbox (sockets s) (fst (snd (user_login sid e data s))) c))
           = (c = sid \<and> h = recentHistory 30 (messageHistory s))
       \<and> messageHistory (fst (user_login sid e data s)) = messageHistory s
       \<and> recentHistory limit hist = drop (length hist - limit) hist
       \<and> length (recentHistory limit hist) = min limit (length hist)
       \<and> (0 < limit \<longrightarrow> slice (- int limit) hist = recentHistory limit hist)"
proof -
  have "(Ev_message_history h \<in> set (inbox (sockets s) (fst (snd (user_login sid e data s))) c))
           = (c = sid \<and> h = recentHistory 30 (messageHistory s))"
    by (auto simp: user_login_accepted[OF assms] inbox_def slice_30 recentHistory_drop)
  moreover have "messageHistory (fst (user_login sid e data s)) = messageHistory s"
    by (simp add: user_login_accepted[OF assms])
  moreover have "length (recentHistory limit hist) = min limit (length hist)"
    by (simp add: recentHistory_def)
  ultimately show ?thesis by (simp add: recentHistory_drop slice_neg)
qed

theorem C10_replay_is_recent_30_witness:
  "Ev_message_history (map burst_msg [71..<101])
     \<in> set (inbox (sockets busy_chat)
              (fst (snd (user_login (js ''B'') env0
                  (client_login (js ''bob'') (js ''PK-B'')) busy_chat))) (js ''B''))
   \<and> messageHistory (fst (user_login (js ''B'') env0
       (client_login (js ''bob'') (js ''PK-B'')) busy_chat))
       = messageHistory busy_chat
   \<and> recentHistory 30 (messageHistory busy_chat) = drop 70 (messageHistory busy_chat)
   \<and> length (recentHistory 30 (messageHistory busy_chat)) = 30
   \<and> slice (- 30) (messageHistory busy_chat) = recentHistory 30 (messageHistory busy_chat)"
proof -
  have a: "field (client_login (js ''bob'') (js ''PK-B'')) (js ''username'') = JStr (js ''bob'')"
    by (simp add: client_login_def)
  have b: "(js ''bob'') \<noteq> []" by simp
  have c: "truthy (field (client_login (js ''bob'') (js ''PK-B'')) (js ''publicKey''))"
    by (simp add: client_login_def)
  have l: "length (messageHistory busy_chat) = 100"
    by (simp add: busy_chat_eq)
  have r: "recentHistory 30 (messageHistory busy_chat) = map burst_msg [71..<101]"
    by (simp add: busy_chat_eq recentHistory_drop drop_map)
  note t = C10_replay_is_recent_30[OF a b c, of "map burst_msg [71..<101]" busy_chat "(js ''B'')"
      env0 "(js ''B'')" 30 "messageHistory busy_chat"]
  from t have "Ev_message_history (map burst_msg [71..<101])
     \<in> set (inbox (sockets busy_chat)
              (fst (snd (user_login (js ''B'') env0
                  (client_login (js ''bob'') (js ''PK-B'')) busy_chat))) (js ''B''))"
    unfolding r by blast
  moreover from t have "messageHistory (fst (user_login (js ''B'') env0
      (client_login (js ''bob'') (js ''PK-B'')) busy_chat))
       = messageHistory busy_chat"
    by blast
  moreover from t have "recentHistory 30 (messageHistory busy_chat)
      = drop 70 (messageHistory busy_chat)"
    by (simp add: l)
  moreover from t have "length (recentHistory 30 (messageHistory busy_chat)) = 30"
    by (simp add: l)
  moreover from t have "slice (- 30) (messageHistory busy_chat)
                        = recentHistory 30 (messageHistory busy_chat)"
    by simp
  ultimately show ?thesis by blast
qed

end
